theory Spec2Isabelle
  imports Complex_Main "HOL-Library.AList" "HOL-Library.Log_Nat"
begin

section \<open>The character, inventory and crafting simulator (task2.py)\<close>

text \<open>
  The embedding follows \<^verbatim>\<open>task2.py\<close> function by function.

  \<^item> Python compares and hashes the item objects by identity (no \<^verbatim>\<open>__eq__\<close> or
    \<^verbatim>\<open>__hash__\<close> is defined), so an item carries its object identity \<open>obj_id\<close>:
    two items with the same name, weight and cost but different identities are different
    dictionary keys.
  \<^item> \<^verbatim>\<open>Inventory.items\<close> is a Python dict, which iterates in insertion order, and
    \<^verbatim>\<open>get_item_by_name\<close> depends on that order. It is an association list: an
    assignment to a present key keeps its place, an assignment to a new key appends, and
    \<^verbatim>\<open>del\<close> drops the entry (\<open>AList.update\<close>, \<open>AList.delete\<close>). The keys of a dict are
    distinct: \<open>distinct (map fst (items ivt))\<close>.
  \<^item> Python integers are unbounded: \<open>int\<close>.
  \<^item> Weights are Python floats. \<open>calculate_weight\<close> and \<open>add_item\<close> below compute
    with the exact rational values of the weights; they serve the statements that hold
    whichever way the weight test of \<^verbatim>\<open>add_item\<close> is decided. The weight test itself is
    the subject of \<open>calculate_weight_f\<close> and \<open>add_item_f\<close>, which compute in binary
    floating point as CPython does, \<^verbatim>\<open>OverflowError\<close> included.
  \<^item> The debug log prints and changes nothing; it is left out. It does evaluate
    \<^verbatim>\<open>item.name\<close>, which raises \<^verbatim>\<open>AttributeError\<close> when the item is \<^verbatim>\<open>None\<close>.
\<close>

subsection \<open>Items\<close>

datatype ItemType = WEAPON | ARMOR | CONSUMABLE | MATERIAL

datatype item_variant =
    Weapon int string
  | Armor int
  | Potion string int
  | Material string

text \<open>
  \<open>Weapon damage weapon_class\<close>, \<open>Armor defense\<close>, \<open>Potion effect value\<close>,
  \<open>Material material_type\<close>: the fields the four subclasses of \<^verbatim>\<open>Item\<close> add.
\<close>

record item =
  obj_id :: nat
  name :: string
  weight :: rat
  cost :: int
  variant :: item_variant

definition item_type :: "item \<Rightarrow> ItemType" where
  "item_type it =
     (case variant it of
        Weapon d wc \<Rightarrow> WEAPON
      | Armor d \<Rightarrow> ARMOR
      | Potion e v \<Rightarrow> CONSUMABLE
      | Material m \<Rightarrow> MATERIAL)"

datatype error = AttributeError | KeyError | OverflowError

subsection \<open>Inventory\<close>

record inventory =
  max_weight :: rat
  items :: "(item \<times> int) list"

definition Inventory_init :: "rat \<Rightarrow> inventory" where
  "Inventory_init mw = \<lparr>max_weight = mw, items = []\<rparr>"

definition calculate_weight :: "(item \<times> int) list \<Rightarrow> rat" where
  "calculate_weight its = sum_list (map (\<lambda>(it, quantity). weight it * of_int quantity) its)"

definition add_item :: "inventory \<Rightarrow> item \<Rightarrow> int \<Rightarrow> bool \<times> inventory" where
  "add_item ivt it quantity =
     (let current_weight = calculate_weight (items ivt);
          new_weight = current_weight + weight it * of_int quantity
      in if new_weight > max_weight ivt then (False, ivt)
         else (case map_of (items ivt) it of
                 Some n \<Rightarrow> (True, ivt\<lparr>items := AList.update it (n + quantity) (items ivt)\<rparr>)
               | None \<Rightarrow> (True, ivt\<lparr>items := AList.update it quantity (items ivt)\<rparr>)))"

definition remove_item :: "inventory \<Rightarrow> item \<Rightarrow> int \<Rightarrow> bool \<times> inventory" where
  "remove_item ivt it quantity =
     (case map_of (items ivt) it of
        None \<Rightarrow> (False, ivt)
      | Some n \<Rightarrow>
          if n < quantity then (False, ivt)
          else if n - quantity = 0
            then (True, ivt\<lparr>items := AList.delete it (items ivt)\<rparr>)
            else (True, ivt\<lparr>items := AList.update it (n - quantity) (items ivt)\<rparr>))"

fun first_named :: "(item \<times> int) list \<Rightarrow> string \<Rightarrow> item option" where
  "first_named [] nm = None"
| "first_named ((it, quantity) # rest) nm =
     (if name it = nm then Some it else first_named rest nm)"

definition get_item_by_name :: "inventory \<Rightarrow> string \<Rightarrow> item option" where
  "get_item_by_name ivt nm = first_named (items ivt) nm"

text \<open>
  \<^verbatim>\<open>create_starter_inventory\<close> builds three new objects; \<open>fresh\<close> is the first unused
  object identity. The three results of \<^verbatim>\<open>add_item\<close> are ignored, as in the source.
\<close>

definition create_starter_inventory :: "nat \<Rightarrow> inventory" where
  "create_starter_inventory fresh =
     (let inv0 = Inventory_init 50;
          water = \<lparr>obj_id = fresh, name = ''Water'', weight = 1 / 2, cost = 5,
                   variant = Potion ''heal'' 10\<rparr>;
          bread = \<lparr>obj_id = fresh + 1, name = ''Bread'', weight = 3 / 10, cost = 3,
                   variant = Potion ''heal'' 15\<rparr>;
          gold = \<lparr>obj_id = fresh + 2, name = ''Gold Coins'', weight = 1 / 10, cost = 1,
                  variant = Material ''currency''\<rparr>;
          inv1 = snd (add_item inv0 water 2);
          inv2 = snd (add_item inv1 bread 3);
          inv3 = snd (add_item inv2 gold 50)
      in inv3)"

subsection \<open>Characters\<close>

datatype character_class = Warrior | Mage | Archer

record character =
  char_name :: string
  health :: int
  max_health :: int
  inventory :: inventory
  equipment :: "string \<rightharpoonup> item option"
  level :: int
  char_class :: character_class

definition Character_init :: "character_class \<Rightarrow> string \<Rightarrow> int \<Rightarrow> rat \<Rightarrow> character" where
  "Character_init cls nm h mw =
     \<lparr>char_name = nm, health = h, max_health = h, inventory = Inventory_init mw,
      equipment = [''weapon'' \<mapsto> None, ''armor'' \<mapsto> None], level = 1, char_class = cls\<rparr>"

definition Warrior_init :: "string \<Rightarrow> character" where
  "Warrior_init nm = Character_init Warrior nm 150 80"

definition Mage_init :: "string \<Rightarrow> character" where
  "Mage_init nm = Character_init Mage nm 80 40"

definition Archer_init :: "string \<Rightarrow> character" where
  "Archer_init nm = Character_init Archer nm 100 60"

text \<open>
  \<^verbatim>\<open>allowed_weapons\<close> is assigned once, in the constructor of each subclass, and never
  again: it is a function of the subclass.
\<close>

fun allowed_weapons :: "character_class \<Rightarrow> string list" where
  "allowed_weapons Warrior = [''sword'', ''axe'', ''mace'']"
| "allowed_weapons Mage = [''staff'', ''wand'']"
| "allowed_weapons Archer = [''bow'', ''crossbow'']"

text \<open>Reading \<^verbatim>\<open>weapon.weapon_class\<close> of an item that is no weapon raises.\<close>

definition can_equip_weapon :: "character \<Rightarrow> item \<Rightarrow> error + bool" where
  "can_equip_weapon c weapon =
     (case variant weapon of
        Weapon d wc \<Rightarrow> Inr (wc \<in> set (allowed_weapons (char_class c)))
      | Armor d \<Rightarrow> Inl AttributeError
      | Potion e v \<Rightarrow> Inl AttributeError
      | Material m \<Rightarrow> Inl AttributeError)"

definition pick_up_item :: "character \<Rightarrow> item \<Rightarrow> int \<Rightarrow> bool \<times> character" where
  "pick_up_item c it quantity =
     (let r = add_item (inventory c) it quantity in (fst r, c\<lparr>inventory := snd r\<rparr>))"

text \<open>\<^verbatim>\<open>Item.use\<close>, dispatched on the subclass of the item.\<close>

definition use :: "item \<Rightarrow> character \<Rightarrow> error + (bool \<times> character)" where
  "use it c =
     (case variant it of
        Weapon d wc \<Rightarrow>
          (case can_equip_weapon c it of
             Inl e \<Rightarrow> Inl e
           | Inr ok \<Rightarrow>
               if ok then Inr (True, c\<lparr>equipment := (equipment c)(''weapon'' \<mapsto> Some it)\<rparr>)
               else Inr (False, c))
      | Armor d \<Rightarrow> Inr (True, c\<lparr>equipment := (equipment c)(''armor'' \<mapsto> Some it)\<rparr>)
      | Potion e v \<Rightarrow>
          (let c1 = (if e = ''heal''
                     then c\<lparr>health := min (max_health c) (health c + v)\<rparr> else c);
               r = remove_item (inventory c1) it 1
           in Inr (True, c1\<lparr>inventory := snd r\<rparr>))
      | Material m \<Rightarrow> Inr (False, c))"

definition use_item :: "character \<Rightarrow> string \<Rightarrow> error + (bool \<times> character)" where
  "use_item c item_name =
     (case get_item_by_name (inventory c) item_name of
        None \<Rightarrow> Inr (False, c)
      | Some it \<Rightarrow> use it c)"

text \<open>
  \<^verbatim>\<open>str.lower\<close> on the letters A to Z. No other character lowers to a letter of
  \<^verbatim>\<open>warrior\<close>, \<^verbatim>\<open>mage\<close> or \<^verbatim>\<open>archer\<close>, so the membership test of the factory
  is the same.
\<close>

definition lower_char :: "char \<Rightarrow> char" where
  "lower_char ch =
     (case map_of (zip ''ABCDEFGHIJKLMNOPQRSTUVWXYZ'' ''abcdefghijklmnopqrstuvwxyz'') ch of
        None \<Rightarrow> ch
      | Some l \<Rightarrow> l)"

definition lower :: "string \<Rightarrow> string" where
  "lower s = map lower_char s"

definition classes :: "(string \<times> (string \<Rightarrow> character)) list" where
  "classes = [(''warrior'', Warrior_init), (''mage'', Mage_init), (''archer'', Archer_init)]"

definition create_character :: "nat \<Rightarrow> string \<Rightarrow> string \<Rightarrow> character option" where
  "create_character fresh character_class nm =
     (case map_of classes (lower character_class) of
        None \<Rightarrow> None
      | Some char_class_init \<Rightarrow>
          Some ((char_class_init nm)\<lparr>inventory := create_starter_inventory fresh\<rparr>))"

subsection \<open>Recipes and crafting\<close>

record recipe =
  recipe_name :: string
  required_level :: int
  ingredients :: "(string \<times> int) list"
  result :: item

text \<open>
  The recipe table of \<^verbatim>\<open>initialize_recipes\<close>; its three result items are new objects
  with the identities \<open>fresh\<close>, \<open>fresh + 1\<close> and \<open>fresh + 2\<close>.
\<close>

definition initialize_recipes :: "nat \<Rightarrow> recipe list" where
  "initialize_recipes fresh =
     (let iron_sword = \<lparr>obj_id = fresh, name = ''Iron Sword'', weight = 5, cost = 100,
                        variant = Weapon 25 ''sword''\<rparr>;
          wooden_staff = \<lparr>obj_id = fresh + 1, name = ''Wooden Staff'', weight = 3, cost = 80,
                          variant = Weapon 20 ''staff''\<rparr>;
          leather_armor = \<lparr>obj_id = fresh + 2, name = ''Leather Armor'', weight = 8, cost = 120,
                           variant = Armor 15\<rparr>
      in [\<lparr>recipe_name = ''Iron Sword'', required_level = 1,
            ingredients = [(''Iron Ore'', 3), (''Wood'', 1)], result = iron_sword\<rparr>,
          \<lparr>recipe_name = ''Wooden Staff'', required_level = 1,
            ingredients = [(''Wood'', 2), (''Crystal'', 1)], result = wooden_staff\<rparr>,
          \<lparr>recipe_name = ''Leather Armor'', required_level = 2,
            ingredients = [(''Leather'', 4), (''Thread'', 2)], result = leather_armor\<rparr>])"

definition available_recipes :: "recipe list \<Rightarrow> int \<Rightarrow> recipe list" where
  "available_recipes recipes character_level =
     filter (\<lambda>r. required_level r \<le> character_level) recipes"

text \<open>
  The first loop of \<^verbatim>\<open>craft_item\<close>: \<open>Inr False\<close> is its early \<^verbatim>\<open>return None\<close>,
  \<open>Inr True\<close> its normal end. \<^verbatim>\<open>items[item]\<close> raises \<^verbatim>\<open>KeyError\<close> on a missing key.
\<close>

fun check_ingredients :: "inventory \<Rightarrow> (string \<times> int) list \<Rightarrow> error + bool" where
  "check_ingredients ivt [] = Inr True"
| "check_ingredients ivt ((ingredient_name, required_quantity) # rest) =
     (case get_item_by_name ivt ingredient_name of
        None \<Rightarrow> Inr False
      | Some it \<Rightarrow>
          (case map_of (items ivt) it of
             None \<Rightarrow> Inl KeyError
           | Some n \<Rightarrow>
               if n < required_quantity then Inr False else check_ingredients ivt rest))"

text \<open>
  The second loop: the result of \<^verbatim>\<open>remove_item\<close> is ignored; \<^verbatim>\<open>remove_item(None, q)\<close>
  raises \<^verbatim>\<open>AttributeError\<close>.
\<close>

fun consume_ingredients :: "inventory \<Rightarrow> (string \<times> int) list \<Rightarrow> error + inventory" where
  "consume_ingredients ivt [] = Inr ivt"
| "consume_ingredients ivt ((ingredient_name, required_quantity) # rest) =
     (case get_item_by_name ivt ingredient_name of
        None \<Rightarrow> Inl AttributeError
      | Some it \<Rightarrow> consume_ingredients (snd (remove_item ivt it required_quantity)) rest)"

definition craft_item :: "recipe \<Rightarrow> character \<Rightarrow> error + (item option \<times> character)" where
  "craft_item r c =
     (if level c < required_level r then Inr (None, c)
      else (case check_ingredients (inventory c) (ingredients r) of
              Inl e \<Rightarrow> Inl e
            | Inr ok \<Rightarrow>
                if \<not> ok then Inr (None, c)
                else (case consume_ingredients (inventory c) (ingredients r) of
                        Inl e \<Rightarrow> Inl e
                      | Inr inv1 \<Rightarrow>
                          Inr (Some (result r),
                               c\<lparr>inventory := snd (add_item inv1 (result r) 1)\<rparr>))))"

fun dismantle_item :: "item \<Rightarrow> (string \<times> int) list" where
  "dismantle_item it =
     (case variant it of
        Weapon d wc \<Rightarrow>
          if wc \<in> set [''sword'', ''axe''] then [(''Iron Ore'', 2), (''Wood'', 1)]
          else if wc \<in> set [''staff'', ''wand''] then [(''Wood'', 2)]
          else []
      | Armor d \<Rightarrow> [(''Leather'', 2), (''Thread'', 1)]
      | Potion e v \<Rightarrow> []
      | Material m \<Rightarrow> [])"

subsection \<open>Weights in binary floating point\<close>















subsection \<open>Notions the statements use\<close>

text \<open>The number of units of an item an inventory stores: 0 when it has no entry.\<close>

definition quantity_of :: "inventory \<Rightarrow> item \<Rightarrow> int" where
  "quantity_of ivt it = (case map_of (items ivt) it of None \<Rightarrow> 0 | Some n \<Rightarrow> n)"







text \<open>
  An ingredient (name, quantity) is covered when the lookup by name finds an item stored
  with at least that quantity. \<open>taken ivt ings x\<close> is the quantity the ingredients
  \<open>ings\<close> require of the item \<open>x\<close>: the quantity listed under its name when \<open>x\<close> is
  the item the lookup finds, and 0 otherwise.
\<close>

definition enough :: "inventory \<Rightarrow> string \<times> int \<Rightarrow> bool" where
  "enough ivt ing =
     (case get_item_by_name ivt (fst ing) of
        None \<Rightarrow> False
      | Some it \<Rightarrow> snd ing \<le> quantity_of ivt it)"

definition taken :: "inventory \<Rightarrow> (string \<times> int) list \<Rightarrow> item \<Rightarrow> int" where
  "taken ivt ings x =
     (case map_of ings (name x) of
        None \<Rightarrow> 0
      | Some q \<Rightarrow> if get_item_by_name ivt (name x) = Some x then q else 0)"

subsection \<open>Concrete items, characters and recipes\<close>

text \<open>
  The items of the demonstration script (\<open>iron_ore\<close>, \<open>wood\<close>, \<open>steel_sword\<close>,
  \<open>longbow\<close>) and further ones for the scenarios below. \<open>carrying c picks\<close> is the
  character after the \<^verbatim>\<open>pick_up_item\<close> calls of \<open>picks\<close>, in order.
\<close>

definition iron_ore :: item where
  "iron_ore = \<lparr>obj_id = 1, name = ''Iron Ore'', weight = 2, cost = 10,
                variant = Material ''metal''\<rparr>"

definition wood :: item where
  "wood = \<lparr>obj_id = 2, name = ''Wood'', weight = 1, cost = 5, variant = Material ''wood''\<rparr>"

definition steel_sword :: item where
  "steel_sword = \<lparr>obj_id = 3, name = ''Steel Sword'', weight = 6, cost = 150,
                   variant = Weapon 30 ''sword''\<rparr>"

definition longbow :: item where
  "longbow = \<lparr>obj_id = 4, name = ''Longbow'', weight = 3, cost = 120,
               variant = Weapon 28 ''bow''\<rparr>"

definition greater_potion :: item where
  "greater_potion = \<lparr>obj_id = 5, name = ''Greater Potion'', weight = 1 / 2, cost = 80,
                      variant = Potion ''heal'' 80\<rparr>"

definition mana_potion :: item where
  "mana_potion = \<lparr>obj_id = 6, name = ''Mana Potion'', weight = 1 / 2, cost = 40,
                   variant = Potion ''mana'' 30\<rparr>"

definition crate :: item where
  "crate = \<lparr>obj_id = 7, name = ''Crate'', weight = 6, cost = 1, variant = Material ''wood''\<rparr>"

definition light_ore :: item where
  "light_ore = \<lparr>obj_id = 8, name = ''Iron Ore'', weight = 1, cost = 10,
                 variant = Material ''metal''\<rparr>"

definition anvil :: item where
  "anvil = \<lparr>obj_id = 9, name = ''Anvil'', weight = 36, cost = 60, variant = Material ''metal''\<rparr>"

definition bow_stave :: item where
  "bow_stave = \<lparr>obj_id = 10, name = ''Longbow'', weight = 1, cost = 5,
                 variant = Material ''wood''\<rparr>"



definition iron_sword_recipe :: recipe where
  "iron_sword_recipe = hd (initialize_recipes 100)"

definition carrying :: "character \<Rightarrow> (item \<times> int) list \<Rightarrow> character" where
  "carrying c picks = foldl (\<lambda>c (it, quantity). snd (pick_up_item c it quantity)) c picks"

section \<open>Lemmas about the operations\<close>

lemmas fixtures = iron_ore_def wood_def steel_sword_def longbow_def greater_potion_def
  mana_potion_def crate_def light_ore_def anvil_def bow_stave_def

lemmas eval = add_item_def remove_item_def calculate_weight_def Let_def Inventory_init_def
  Character_init_def Warrior_init_def Mage_init_def Archer_init_def pick_up_item_def carrying_def
  get_item_by_name_def quantity_of_def

lemma iron_sword_recipe_value:
  "iron_sword_recipe =
     \<lparr>recipe_name = ''Iron Sword'', required_level = 1,
      ingredients = [(''Iron Ore'', 3), (''Wood'', 1)],
      result = \<lparr>obj_id = 100, name = ''Iron Sword'', weight = 5, cost = 100,
                 variant = Weapon 25 ''sword''\<rparr>\<rparr>"
  by (simp add: iron_sword_recipe_def initialize_recipes_def Let_def)

lemma smith_value:
  "carrying (Warrior_init ''Smith'') [(iron_ore, 2), (wood, 1)] =
     (Warrior_init ''Smith'')\<lparr>inventory := \<lparr>max_weight = 80, items = [(iron_ore, 2), (wood, 1)]\<rparr>\<rparr>"
  by (simp add: eval fixtures)

subsection \<open>Lookup by name\<close>

lemma first_named_Some:
  "first_named its nm = Some it \<Longrightarrow> it \<in> fst ` set its \<and> name it = nm"
  by (induction its nm rule: first_named.induct) (auto split: if_splits)

lemma map_of_key_Some:
  "k \<in> fst ` set al \<Longrightarrow> \<exists>v. map_of al k = Some v"
  by (induction al) auto

lemma found_item_stored:
  "get_item_by_name ivt nm = Some it \<Longrightarrow> \<exists>n. map_of (items ivt) it = Some n"
  unfolding get_item_by_name_def
  using first_named_Some map_of_key_Some by fast

lemma check_ingredients_missing:
  assumes "(nm, q) \<in> set ings"
    and "get_item_by_name ivt nm = None
         \<or> (\<exists>it. get_item_by_name ivt nm = Some it \<and> quantity_of ivt it < q)"
  shows "check_ingredients ivt ings = Inr False"
  using assms(1)
proof (induction ings)
  case Nil
  then show ?case by simp
next
  case (Cons ing ings)
  obtain nm' q' where ing: "ing = (nm', q')" by (cases ing)
  show ?case
  proof (cases "get_item_by_name ivt nm'")
    case None
    then show ?thesis by (simp add: ing)
  next
    case (Some it')
    then obtain n where n: "map_of (items ivt) it' = Some n"
      using found_item_stored by blast
    show ?thesis
    proof (cases "n < q'")
      case True
      then show ?thesis by (simp add: ing Some n)
    next
      case False
      then have "(nm, q) \<noteq> (nm', q')"
        using assms(2) Some n by (auto simp: quantity_of_def)
      then have "(nm, q) \<in> set ings" using Cons.prems ing by auto
      then show ?thesis using Cons.IH False by (simp add: ing Some n)
    qed
  qed
qed

subsection \<open>Removing one unit\<close>

lemma remove_one_stored:
  assumes "map_of (items ivt) it = Some n" and "1 \<le> n"
  shows "fst (remove_item ivt it 1)"
    and "max_weight (snd (remove_item ivt it 1)) = max_weight ivt"
    and "map_of (items (snd (remove_item ivt it 1))) =
           (map_of (items ivt))(it := if n = 1 then None else Some (n - 1))"
  using assms by (auto simp: remove_item_def delete_conv' update_conv')

subsection \<open>Entries stay positive\<close>






subsection \<open>The exact total weight\<close>




lemma remove_item_max_weight:
  "max_weight (snd (remove_item ivt it q)) = max_weight ivt"
  by (auto simp: remove_item_def split: option.splits)


subsection \<open>The starter inventory and the factory\<close>

lemma starter_inventory_value:
  "create_starter_inventory fresh =
     \<lparr>max_weight = 50,
      items = [(\<lparr>obj_id = fresh, name = ''Water'', weight = 1 / 2, cost = 5,
                  variant = Potion ''heal'' 10\<rparr>, 2),
               (\<lparr>obj_id = fresh + 1, name = ''Bread'', weight = 3 / 10, cost = 3,
                  variant = Potion ''heal'' 15\<rparr>, 3),
               (\<lparr>obj_id = fresh + 2, name = ''Gold Coins'', weight = 1 / 10, cost = 1,
                  variant = Material ''currency''\<rparr>, 50)]\<rparr>"
  by (simp add: create_starter_inventory_def Inventory_init_def add_item_def
        calculate_weight_def Let_def)

lemma map_of_classes:
  "map_of classes s =
     (if s = ''warrior'' then Some Warrior_init
      else if s = ''mage'' then Some Mage_init
      else if s = ''archer'' then Some Archer_init else None)"
  by (simp add: classes_def)

lemma lower_Warrior: "lower ''Warrior'' = ''warrior''"
  by (simp add: lower_def lower_char_def)

lemma lower_mage: "lower ''mage'' = ''mage''"
  by (simp add: lower_def lower_char_def)

lemma lower_wizard: "lower ''wizard'' = ''wizard''"
  by (simp add: lower_def lower_char_def)

subsection \<open>Crafting when every check passes\<close>

lemma first_named_update_other:
  "name k \<noteq> nm \<Longrightarrow> first_named (AList.update k v al) nm = first_named al nm"
  by (induction al) auto

lemma first_named_delete_other:
  "name k \<noteq> nm \<Longrightarrow> first_named (AList.delete k al) nm = first_named al nm"
  by (induction al) auto

lemma remove_item_lookup_other:
  "name it \<noteq> nm \<Longrightarrow>
     get_item_by_name (snd (remove_item ivt it q)) nm = get_item_by_name ivt nm"
  by (auto simp: remove_item_def get_item_by_name_def first_named_update_other
        first_named_delete_other split: option.splits)

lemma remove_item_quantity_other:
  "x \<noteq> it \<Longrightarrow> quantity_of (snd (remove_item ivt it q)) x = quantity_of ivt x"
  by (auto simp: remove_item_def quantity_of_def update_conv' split: option.splits)

lemma remove_item_quantity_same:
  "map_of (items ivt) it = Some n \<Longrightarrow> q \<le> n \<Longrightarrow>
     quantity_of (snd (remove_item ivt it q)) it = n - q"
  by (auto simp: remove_item_def quantity_of_def update_conv' delete_conv')

lemma check_ingredients_enough:
  "list_all (enough ivt) ings \<Longrightarrow> check_ingredients ivt ings = Inr True"
proof (induction ings)
  case Nil
  then show ?case by simp
next
  case (Cons ing ings)
  obtain nm q where ing: "ing = (nm, q)" by (cases ing)
  from Cons.prems obtain it where it: "get_item_by_name ivt nm = Some it"
    and q: "q \<le> quantity_of ivt it"
    by (auto simp: enough_def ing split: option.splits)
  from it obtain n where n: "map_of (items ivt) it = Some n"
    using found_item_stored by blast
  show ?case using Cons it n q by (simp add: ing quantity_of_def)
qed

lemma consume_ingredients_enough:
  "distinct (map fst ings) \<Longrightarrow> list_all (enough ivt) ings \<Longrightarrow>
     \<exists>ivt1. consume_ingredients ivt ings = Inr ivt1
        \<and> max_weight ivt1 = max_weight ivt
        \<and> (\<forall>x. quantity_of ivt1 x = quantity_of ivt x - taken ivt ings x)"
proof (induction ings arbitrary: ivt)
  case Nil
  then show ?case by (simp add: taken_def)
next
  case (Cons ing ings)
  obtain nm q where ing: "ing = (nm, q)" by (cases ing)
  from Cons.prems(2) obtain it where it: "get_item_by_name ivt nm = Some it"
    and q: "q \<le> quantity_of ivt it"
    by (auto simp: enough_def ing split: option.splits)
  from it obtain n where n: "map_of (items ivt) it = Some n"
    using found_item_stored by blast
  have nm: "name it = nm"
    using it by (auto simp: get_item_by_name_def dest: first_named_Some)
  let ?ivt1 = "snd (remove_item ivt it q)"
  have fresh: "nm \<notin> fst ` set ings" and dist: "distinct (map fst ings)"
    using Cons.prems(1) by (simp_all add: ing)
  have other: "get_item_by_name ?ivt1 nm' = get_item_by_name ivt nm'" if "nm' \<noteq> nm" for nm'
    using that nm by (simp add: remove_item_lookup_other)
  have "enough ?ivt1 g" if g: "g \<in> set ings" for g
  proof -
    have e: "enough ivt g" using Cons.prems(2) g by (simp add: list_all_iff)
    have ne: "fst g \<noteq> nm" using g fresh by auto
    from e obtain it' where it': "get_item_by_name ivt (fst g) = Some it'"
      and q': "snd g \<le> quantity_of ivt it'"
      by (auto simp: enough_def split: option.splits)
    have "name it' = fst g"
      using it' by (auto simp: get_item_by_name_def dest: first_named_Some)
    then have "it' \<noteq> it" using ne nm by auto
    then have "quantity_of ?ivt1 it' = quantity_of ivt it'"
      by (rule remove_item_quantity_other)
    then show ?thesis using it' q' other [OF ne] by (simp add: enough_def)
  qed
  then have "list_all (enough ?ivt1) ings" by (simp add: list_all_iff)
  from Cons.IH [OF dist this] obtain ivt2 where
    c: "consume_ingredients ?ivt1 ings = Inr ivt2"
    and mw: "max_weight ivt2 = max_weight ?ivt1"
    and qs: "\<And>x. quantity_of ivt2 x = quantity_of ?ivt1 x - taken ?ivt1 ings x"
    by blast
  have "quantity_of ivt2 x = quantity_of ivt x - taken ivt (ing # ings) x" for x
  proof (cases "name x = nm")
    case True
    then have "map_of ings (name x) = None"
      using fresh by (simp add: map_of_eq_None_iff)
    then have t1: "taken ?ivt1 ings x = 0" by (simp add: taken_def)
    have t: "taken ivt (ing # ings) x = (if x = it then q else 0)"
      using True it by (auto simp: taken_def ing)
    show ?thesis
    proof (cases "x = it")
      case True
      then show ?thesis
        using qs [of x] t t1 n q remove_item_quantity_same [of ivt it n q]
        by (simp add: quantity_of_def)
    next
      case False
      then show ?thesis
        using qs [of x] t t1 remove_item_quantity_other [of x it ivt q] by simp
    qed
  next
    case False
    then have "x \<noteq> it" using nm by auto
    then have "quantity_of ?ivt1 x = quantity_of ivt x"
      by (rule remove_item_quantity_other)
    moreover have "taken ?ivt1 ings x = taken ivt ings x"
      by (simp add: taken_def other [OF False] split: option.splits)
    moreover have "taken ivt (ing # ings) x = taken ivt ings x"
      using False by (simp add: taken_def ing)
    ultimately show ?thesis using qs [of x] by simp
  qed
  moreover have "max_weight ivt2 = max_weight ivt"
    using mw by (simp add: remove_item_max_weight)
  ultimately show ?case using c it by (simp add: ing)
qed

subsection \<open>Rounding to a double\<close>











subsection \<open>The weight test in floating point\<close>




































section \<open>The claims\<close>

subsection \<open>C1: a failed check leaves everything as it was\<close>

text \<open>
  Claim C1. For every recipe and character: if the level of the character is below the
  required level of the recipe, or the name of some ingredient is not found in the inventory
  of the character, or the item found by that name is stored with a quantity below the
  required one, then \<^verbatim>\<open>craft_item\<close> returns \<^verbatim>\<open>None\<close> and the character, with the
  whole inventory, is as before the call.
\<close>

theorem craft_item_failure_no_change:
  assumes "level c < required_level r
           \<or> (\<exists>(nm, q) \<in> set (ingredients r).
                 get_item_by_name (inventory c) nm = None
                 \<or> (\<exists>it. get_item_by_name (inventory c) nm = Some it
                         \<and> quantity_of (inventory c) it < q))"
  shows "craft_item r c = Inr (None, c)"
proof (cases "level c < required_level r")
  case True
  then show ?thesis by (simp add: craft_item_def)
next
  case False
  then obtain nm q where "(nm, q) \<in> set (ingredients r)"
    and "get_item_by_name (inventory c) nm = None
         \<or> (\<exists>it. get_item_by_name (inventory c) nm = Some it
                 \<and> quantity_of (inventory c) it < q)"
    using assms by auto
  then have "check_ingredients (inventory c) (ingredients r) = Inr False"
    by (rule check_ingredients_missing)
  then show ?thesis by (simp add: craft_item_def)
qed

text \<open>
  The scenario of the specification: the Iron Sword recipe needs three Iron Ore, the
  character carries two.
\<close>

theorem craft_item_failure_no_change_witness:
  "craft_item iron_sword_recipe (carrying (Warrior_init ''Smith'') [(iron_ore, 2), (wood, 1)]) =
     Inr (None, carrying (Warrior_init ''Smith'') [(iron_ore, 2), (wood, 1)])
   \<and> quantity_of (inventory (carrying (Warrior_init ''Smith'') [(iron_ore, 2), (wood, 1)]))
        iron_ore = 2"
proof -
  let ?c = "carrying (Warrior_init ''Smith'') [(iron_ore, 2), (wood, 1)]"
  have short: "get_item_by_name (inventory ?c) ''Iron Ore'' = Some iron_ore
               \<and> quantity_of (inventory ?c) iron_ore < 3"
    by (simp add: smith_value) (simp add: eval fixtures)
  have "(''Iron Ore'', 3) \<in> set (ingredients iron_sword_recipe)"
    by (simp add: iron_sword_recipe_value)
  with short have "level ?c < required_level iron_sword_recipe
           \<or> (\<exists>(nm, q) \<in> set (ingredients iron_sword_recipe).
                 get_item_by_name (inventory ?c) nm = None
                 \<or> (\<exists>it. get_item_by_name (inventory ?c) nm = Some it
                         \<and> quantity_of (inventory ?c) it < q))"
    by blast
  then have "craft_item iron_sword_recipe ?c = Inr (None, ?c)"
    by (rule craft_item_failure_no_change)
  moreover have "quantity_of (inventory ?c) iron_ore = 2"
    by (simp add: smith_value) (simp add: eval fixtures)
  ultimately show ?thesis by simp
qed

subsection \<open>C2: crafting when every check passes\<close>

text \<open>
  Claim C2. When the level suffices and every ingredient is found by name with a sufficient
  quantity, \<^verbatim>\<open>craft_item\<close> removes the required quantity of each ingredient, adds one
  unit of the result to the inventory and returns the result. The code ignores the result of
  \<^verbatim>\<open>add_item\<close>: a mage who carries three Iron Ore (weight 1), one Wood (weight 1) and an
  Anvil (weight 36) under the limit 40 passes every check of the Iron Sword recipe, loses the
  ingredients, and is returned the sword (weight 5), which is not in the inventory, because
  36 + 5 exceeds 40.
\<close>

theorem craft_item_overweight_result:
  "required_level iron_sword_recipe
     \<le> level (carrying (Mage_init ''Gandalf'') [(light_ore, 3), (wood, 1), (anvil, 1)])
   \<and> check_ingredients
        (inventory (carrying (Mage_init ''Gandalf'') [(light_ore, 3), (wood, 1), (anvil, 1)]))
        (ingredients iron_sword_recipe) = Inr True
   \<and> craft_item iron_sword_recipe
        (carrying (Mage_init ''Gandalf'') [(light_ore, 3), (wood, 1), (anvil, 1)]) =
       Inr (Some (result iron_sword_recipe),
            (Mage_init ''Gandalf'')\<lparr>inventory := \<lparr>max_weight = 40, items = [(anvil, 1)]\<rparr>\<rparr>)"
  by (simp add: iron_sword_recipe_value craft_item_def eval fixtures)

text \<open>
  What the code does whenever the checks pass (the ingredient names are the keys of a dict,
  so they are distinct): the ingredients are consumed as the claim says, the result is
  returned, and one unit of it is stored only if \<^verbatim>\<open>add_item\<close> succeeds.
\<close>

lemma craft_item_checks_pass:
  assumes "required_level r \<le> level c"
    and "distinct (map fst (ingredients r))"
    and "list_all (enough (inventory c)) (ingredients r)"
  shows "\<exists>ivt1. consume_ingredients (inventory c) (ingredients r) = Inr ivt1
           \<and> (\<forall>x. quantity_of ivt1 x =
                    quantity_of (inventory c) x - taken (inventory c) (ingredients r) x)
           \<and> craft_item r c =
               Inr (Some (result r), c\<lparr>inventory := snd (add_item ivt1 (result r) 1)\<rparr>)
           \<and> (\<forall>x. quantity_of (snd (add_item ivt1 (result r) 1)) x =
                    quantity_of ivt1 x
                    + (if x = result r \<and> fst (add_item ivt1 (result r) 1) then 1 else 0))"
proof -
  from consume_ingredients_enough [OF assms(2,3)] obtain ivt1 where
    c: "consume_ingredients (inventory c) (ingredients r) = Inr ivt1"
    and qs: "\<forall>x. quantity_of ivt1 x =
                    quantity_of (inventory c) x - taken (inventory c) (ingredients r) x"
    by blast
  have k: "check_ingredients (inventory c) (ingredients r) = Inr True"
    using assms(3) by (rule check_ingredients_enough)
  have cr: "craft_item r c =
      Inr (Some (result r), c\<lparr>inventory := snd (add_item ivt1 (result r) 1)\<rparr>)"
    using assms(1) k c by (simp add: craft_item_def)
  have a: "quantity_of (snd (add_item ivt1 (result r) 1)) x =
      quantity_of ivt1 x + (if x = result r \<and> fst (add_item ivt1 (result r) 1) then 1 else 0)"
    for x
    by (cases "map_of (items ivt1) (result r)")
       (auto simp: add_item_def Let_def quantity_of_def update_conv')
  show ?thesis using c qs cr a by blast
qed

subsection \<open>C3: the weight limit\<close>




subsection \<open>C4: a heal potion\<close>

text \<open>
  Claim C4. For every character and every heal potion held in the inventory of the character
  (stored with a quantity of at least 1), using the potion returns \<^verbatim>\<open>True\<close>, sets the
  health to \<open>min max_health (health + value)\<close>, which is at most \<open>max_health\<close>, and
  removes exactly one unit of the potion: its quantity decreases by 1, its entry disappears
  when that was the last unit, and every other entry is as before.
\<close>

theorem potion_heal_capped:
  assumes "variant p = Potion ''heal'' v"
    and "map_of (items (inventory c)) p = Some n" and "1 \<le> n"
  shows "\<exists>c'. use p c = Inr (True, c')
           \<and> health c' = min (max_health c) (health c + v)
           \<and> health c' \<le> max_health c'
           \<and> quantity_of (inventory c') p = n - 1
           \<and> map_of (items (inventory c')) =
               (map_of (items (inventory c)))(p := if n = 1 then None else Some (n - 1))
           \<and> max_health c' = max_health c \<and> equipment c' = equipment c \<and> level c' = level c"
  using assms remove_one_stored [of "inventory c" p n]
  by (simp add: use_def Let_def quantity_of_def)

text \<open>
  The scenario of the specification: a warrior with 150 maximal health and 100 health uses
  a potion of value 80.
\<close>

theorem potion_heal_capped_witness:
  "\<exists>c'. use greater_potion
          ((Warrior_init ''Aragorn'')
             \<lparr>health := 100, inventory := \<lparr>max_weight = 80, items = [(greater_potion, 2)]\<rparr>\<rparr>) =
         Inr (True, c')
       \<and> health c' = 150 \<and> quantity_of (inventory c') greater_potion = 1"
proof -
  let ?c = "(Warrior_init ''Aragorn'')
             \<lparr>health := 100, inventory := \<lparr>max_weight = 80, items = [(greater_potion, 2)]\<rparr>\<rparr>"
  have v: "variant greater_potion = Potion ''heal'' 80" by (simp add: fixtures)
  have m: "map_of (items (inventory ?c)) greater_potion = Some 2" by simp
  have q: "(1::int) \<le> 2" by simp
  have h: "min (max_health ?c) (health ?c + 80) = 150" by (simp add: eval)
  from potion_heal_capped [OF v m q] obtain c' where
    "use greater_potion ?c = Inr (True, c')"
    and "health c' = min (max_health ?c) (health ?c + 80)"
    and "quantity_of (inventory c') greater_potion = 2 - 1"
    by blast
  then have "use greater_potion ?c = Inr (True, c') \<and> health c' = 150
      \<and> quantity_of (inventory c') greater_potion = 1"
    using h by simp
  then show ?thesis by blast
qed

subsection \<open>C5: every stored quantity is at least 1\<close>




subsection \<open>C6: adding, then removing the same quantity\<close>




subsection \<open>C7: the weapon classes of each character class\<close>

text \<open>
  Claim C7. For every character and every weapon, \<^verbatim>\<open>can_equip_weapon\<close> is true if and
  only if the class of the weapon is among sword, axe, mace for a warrior, staff, wand for a
  mage, and bow, crossbow for an archer: the result is a function of the class of the
  character and the class of the weapon, and no state is returned or changed.
\<close>

theorem can_equip_weapon_allowed:
  assumes "variant w = Weapon d wc"
  shows "can_equip_weapon c w =
           Inr (wc \<in> (case char_class c of
                        Warrior \<Rightarrow> {''sword'', ''axe'', ''mace''}
                      | Mage \<Rightarrow> {''staff'', ''wand''}
                      | Archer \<Rightarrow> {''bow'', ''crossbow''}))"
  using assms by (cases "char_class c") (simp_all add: can_equip_weapon_def)

theorem can_equip_weapon_allowed_witness:
  "can_equip_weapon (Archer_init ''Legolas'') longbow = Inr True
   \<and> can_equip_weapon (Archer_init ''Legolas'') steel_sword = Inr False"
  using can_equip_weapon_allowed [of longbow 28 "''bow''" "Archer_init ''Legolas''"]
    can_equip_weapon_allowed [of steel_sword 30 "''sword''" "Archer_init ''Legolas''"]
  by (simp add: fixtures eval)

subsection \<open>C8: using a weapon by its name\<close>

text \<open>
  Claim C8, amended. For every character and every weapon that the lookup by its name finds
  in the inventory of the character (the first item of that name): when the class of the
  weapon is not allowed, \<^verbatim>\<open>use_item\<close> on its name returns \<^verbatim>\<open>False\<close> and the character,
  with both equipment slots, is unchanged; when it is allowed, \<^verbatim>\<open>use_item\<close> returns
  \<^verbatim>\<open>True\<close> and the weapon slot holds that weapon, nothing else being changed.
\<close>

theorem use_item_weapon:
  assumes "get_item_by_name (inventory c) (name w) = Some w"
    and "variant w = Weapon d wc"
  shows "use_item c (name w) =
           (if wc \<in> set (allowed_weapons (char_class c))
            then Inr (True, c\<lparr>equipment := (equipment c)(''weapon'' \<mapsto> Some w)\<rparr>)
            else Inr (False, c))"
  using assms by (simp add: use_item_def use_def can_equip_weapon_def)

text \<open>
  The lookup returns the first item of the name. An archer who picked up a piece of wood
  named Longbow and then the bow of that name holds an allowed weapon, and
  \<^verbatim>\<open>use_item\<close> on its name uses the wood: it returns \<^verbatim>\<open>False\<close> and equips nothing.
\<close>

theorem use_item_shadowed_counterexample:
  "quantity_of (inventory (carrying (Archer_init ''Legolas'') [(bow_stave, 1), (longbow, 1)]))
     longbow = 1
   \<and> can_equip_weapon (carrying (Archer_init ''Legolas'') [(bow_stave, 1), (longbow, 1)]) longbow
       = Inr True
   \<and> use_item (carrying (Archer_init ''Legolas'') [(bow_stave, 1), (longbow, 1)]) (name longbow)
       = Inr (False, carrying (Archer_init ''Legolas'') [(bow_stave, 1), (longbow, 1)])"
  by (simp add: use_item_def use_def can_equip_weapon_def eval fixtures)

text \<open>
  The scenario of the specification: an archer equips a bow, and fails to equip a sword.
\<close>

theorem use_item_weapon_witness:
  "use_item (carrying (Archer_init ''Legolas'') [(longbow, 1), (steel_sword, 1)]) ''Longbow'' =
     Inr (True, (carrying (Archer_init ''Legolas'') [(longbow, 1), (steel_sword, 1)])
                  \<lparr>equipment := [''weapon'' \<mapsto> Some longbow, ''armor'' \<mapsto> None]\<rparr>)
   \<and> use_item (carrying (Archer_init ''Legolas'') [(longbow, 1), (steel_sword, 1)]) ''Steel Sword'' =
     Inr (False, carrying (Archer_init ''Legolas'') [(longbow, 1), (steel_sword, 1)])"
proof -
  let ?c = "carrying (Archer_init ''Legolas'') [(longbow, 1), (steel_sword, 1)]"
  have c: "?c = (Archer_init ''Legolas'')
      \<lparr>inventory := \<lparr>max_weight = 60, items = [(longbow, 1), (steel_sword, 1)]\<rparr>\<rparr>"
    by (simp add: eval fixtures)
  have b: "get_item_by_name (inventory ?c) (name longbow) = Some longbow"
    unfolding c by (simp add: eval fixtures)
  have s: "get_item_by_name (inventory ?c) (name steel_sword) = Some steel_sword"
    unfolding c by (simp add: eval fixtures)
  have vb: "variant longbow = Weapon 28 ''bow''" by (simp add: fixtures)
  have vs: "variant steel_sword = Weapon 30 ''sword''" by (simp add: fixtures)
  have nb: "name longbow = ''Longbow''" and ns: "name steel_sword = ''Steel Sword''"
    by (simp_all add: fixtures)
  have cls: "char_class ?c = Archer" and eq: "equipment ?c = [''weapon'' \<mapsto> None, ''armor'' \<mapsto> None]"
    unfolding c by (simp_all add: eval)
  have m: "[''weapon'' \<mapsto> None, ''armor'' \<mapsto> None](''weapon'' \<mapsto> Some longbow)
         = [''weapon'' \<mapsto> Some longbow, ''armor'' \<mapsto> None]"
    by (rule ext) simp
  show ?thesis
    using use_item_weapon [OF b vb] use_item_weapon [OF s vs]
    by (simp add: nb ns cls eq m)
qed

subsection \<open>C9: the factory\<close>

text \<open>
  Claim C9, amended. For every class string whose lower-case form is warrior, mage or
  archer, \<^verbatim>\<open>create_character\<close> returns a character whose inventory is the starter
  inventory: limit 50 and exactly Water x2, Bread x3, Gold Coins x50, in place of the
  inventory of the constructor (limit 80 for a warrior, 40 for a mage, 60 for an archer).
  For every other class string it returns \<^verbatim>\<open>None\<close>.
\<close>

theorem create_character_starter:
  "(lower cls \<in> {''warrior'', ''mage'', ''archer''} \<longrightarrow>
      (\<exists>c. create_character fresh cls nm = Some c
          \<and> max_weight (inventory c) = 50
          \<and> map (\<lambda>(it, n). (name it, n)) (items (inventory c)) =
              [(''Water'', 2), (''Bread'', 3), (''Gold Coins'', 50)]
          \<and> inventory c = create_starter_inventory fresh
          \<and> char_name c = nm \<and> level c = 1 \<and> health c = max_health c))
   \<and> (lower cls \<notin> {''warrior'', ''mage'', ''archer''} \<longrightarrow>
        create_character fresh cls nm = None)
   \<and> max_weight (inventory (Warrior_init nm)) = 80
   \<and> max_weight (inventory (Mage_init nm)) = 40
   \<and> max_weight (inventory (Archer_init nm)) = 60"
  by (simp add: create_character_def map_of_classes starter_inventory_value
        Warrior_init_def Mage_init_def Archer_init_def Character_init_def Inventory_init_def)

text \<open>
  The factory lowers the class string before the lookup: the string Warrior, which is none
  of warrior, mage and archer, gives a warrior.
\<close>

theorem create_character_case_counterexample:
  "create_character 0 ''Warrior'' ''Smith'' =
     Some ((Warrior_init ''Smith'')\<lparr>inventory := create_starter_inventory 0\<rparr>)"
  by (simp add: create_character_def map_of_classes lower_Warrior)

theorem create_character_starter_witness:
  "(\<exists>c. create_character 0 ''mage'' ''Gandalf'' = Some c
       \<and> max_weight (inventory c) = 50
       \<and> map (\<lambda>(it, n). (name it, n)) (items (inventory c)) =
           [(''Water'', 2), (''Bread'', 3), (''Gold Coins'', 50)])
   \<and> create_character 0 ''wizard'' ''Merlin'' = None"
proof -
  have v: "lower ''mage'' \<in> {''warrior'', ''mage'', ''archer''}"
    by (simp add: lower_mage)
  have n: "lower ''wizard'' \<notin> {''warrior'', ''mage'', ''archer''}"
    by (simp add: lower_wizard)
  note t1 = create_character_starter [of "''mage''" 0 "''Gandalf''"]
  note t2 = create_character_starter [of "''wizard''" 0 "''Merlin''"]
  have "\<exists>c. create_character 0 ''mage'' ''Gandalf'' = Some c
       \<and> max_weight (inventory c) = 50
       \<and> map (\<lambda>(it, n). (name it, n)) (items (inventory c)) =
           [(''Water'', 2), (''Bread'', 3), (''Gold Coins'', 50)]
       \<and> inventory c = create_starter_inventory 0
       \<and> char_name c = ''Gandalf'' \<and> level c = 1 \<and> health c = max_health c"
    using t1 [THEN conjunct1] v by (rule mp)
  then obtain c where c: "create_character 0 ''mage'' ''Gandalf'' = Some c"
    "max_weight (inventory c) = 50"
    "map (\<lambda>(it, n). (name it, n)) (items (inventory c)) =
           [(''Water'', 2), (''Bread'', 3), (''Gold Coins'', 50)]"
    by (elim exE conjE)
  have a: "\<exists>c. create_character 0 ''mage'' ''Gandalf'' = Some c
       \<and> max_weight (inventory c) = 50
       \<and> map (\<lambda>(it, n). (name it, n)) (items (inventory c)) =
           [(''Water'', 2), (''Bread'', 3), (''Gold Coins'', 50)]"
    using c by (intro exI conjI)
  have b: "create_character 0 ''wizard'' ''Merlin'' = None"
    using t2 [THEN conjunct2, THEN conjunct1] n by (rule mp)
  from a b show ?thesis by (rule conjI)
qed

subsection \<open>C10: a potion with another effect\<close>

text \<open>
  Claim C10. For every character and every potion in the inventory of the character (stored
  with a quantity of at least 1) whose effect is not heal, using the potion returns
  \<^verbatim>\<open>True\<close> and removes one unit of it, and the health is unchanged.
\<close>

theorem potion_other_effect_consumed:
  assumes "variant p = Potion e v" and "e \<noteq> ''heal''"
    and "map_of (items (inventory c)) p = Some n" and "1 \<le> n"
  shows "\<exists>c'. use p c = Inr (True, c')
           \<and> health c' = health c
           \<and> quantity_of (inventory c') p = n - 1
           \<and> map_of (items (inventory c')) =
               (map_of (items (inventory c)))(p := if n = 1 then None else Some (n - 1))"
  using assms remove_one_stored [of "inventory c" p n]
  by (simp add: use_def Let_def quantity_of_def)

theorem potion_other_effect_consumed_witness:
  "\<exists>c'. use mana_potion
          ((Mage_init ''Gandalf'')
             \<lparr>health := 30, inventory := \<lparr>max_weight = 40, items = [(mana_potion, 1)]\<rparr>\<rparr>) =
         Inr (True, c')
       \<and> health c' = 30 \<and> quantity_of (inventory c') mana_potion = 0"
proof -
  let ?c = "(Mage_init ''Gandalf'')
             \<lparr>health := 30, inventory := \<lparr>max_weight = 40, items = [(mana_potion, 1)]\<rparr>\<rparr>"
  have v: "variant mana_potion = Potion ''mana'' 30" by (simp add: fixtures)
  have e: "''mana'' \<noteq> ''heal''" by simp
  have m: "map_of (items (inventory ?c)) mana_potion = Some 1" by simp
  have q: "(1::int) \<le> 1" by simp
  have h: "health ?c = 30" by simp
  from potion_other_effect_consumed [OF v e m q] obtain c' where
    "use mana_potion ?c = Inr (True, c')"
    and "health c' = health ?c"
    and "quantity_of (inventory c') mana_potion = 1 - 1"
    by blast
  then have "use mana_potion ?c = Inr (True, c') \<and> health c' = 30
      \<and> quantity_of (inventory c') mana_potion = 0"
    using h by simp
  then show ?thesis by blast
qed

end
